theory Spec2Isabelle
  imports Main "HOL-Library.Word"
begin

unbundle bit_operations_syntax

section \<open>The thread registry of rotate-skiplist.h\<close>

text \<open>
  The header declares one class with behaviour, \<open>ThreadState\<close>, the macro
  \<open>CACHE_ALIGNED_ALLOC\<close>, and two empty classes (\<open>GCState\<close> and the template
  \<open>RotateSkiplist\<close>). The embedding below follows the header member by member.

  Conventions of the embedding:
  \<^item> a pointer is a 64-bit word (the macro itself casts the pointer to
    \<open>unsigned long\<close>); \<open>nullptr\<close> is 0;
  \<^item> the \<open>ThreadState\<close> objects live in a store \<open>heap\<close>, a partial map from
    addresses to objects; dereferencing an address outside the store is the outcome
    \<open>InvalidDeref\<close>;
  \<^item> the static members are fields of the record \<open>registry\<close>;
  \<^item> \<open>specific\<close> holds, for every thread, the value that \<open>pthread_getspecific\<close>
    returns for \<open>thread_state_key\<close> (0 when nothing was registered);
  \<^item> \<open>effects\<close> is the log of the library calls with an effect that the code has made,
    in order;
  \<^item> \<open>assert\<close> is modelled as compiled in (the header does not define \<open>NDEBUG\<close>).
\<close>

subsection \<open>Data\<close>

type_synonym addr = "64 word"
type_synonym tid = nat

text \<open>The non-static members of \<open>ThreadState\<close> (the field \<open>id\<close> is named \<open>id_field\<close>).\<close>

record ThreadState =
  id_field :: "32 word"
  owned :: bool
  next_p :: addr
  gc_p :: addr

datatype effect =
    KeyCreate
  | Perror string
  | TestAndSet addr
  | ClearFlag addr
  | Malloc "64 word"
  | SetSpecific tid addr

text \<open>The static members of \<open>ThreadState\<close>, the store and the thread-local values.\<close>

record registry =
  heap :: "addr \<rightharpoonup> ThreadState"
  next_id :: "32 word"
  thread_state_head_p :: addr
  inited :: bool
  specific :: "tid \<Rightarrow> addr"
  effects :: "effect list"

text \<open>
  How a call ends: it returns a value; control reaches the closing brace of a function
  that must return a value (\<open>FellOffEnd\<close>); the process exits with a status; an
  assertion fails; an address outside the store is dereferenced.
\<close>

datatype 'a outcome =
    Returned 'a
  | FellOffEnd
  | Exited int
  | AssertFailed
  | InvalidDeref

subsection \<open>The atomic flag\<close>

text \<open>
  \<open>std::atomic_flag::test_and_set\<close> on the \<open>owned\<close> flag of the object at \<open>p\<close>: one
  atomic step that sets the flag and returns its previous value. \<open>None\<close> when \<open>p\<close> is
  not an object of the store.
\<close>

definition test_and_set :: "addr \<Rightarrow> registry \<Rightarrow> (bool \<times> registry) option" where
  "test_and_set p s =
     (case heap s p of
        None \<Rightarrow> None
      | Some ts \<Rightarrow>
          Some (owned ts,
                s\<lparr>heap := (heap s)(p \<mapsto> ts\<lparr>owned := True\<rparr>),
                  effects := effects s @ [TestAndSet p]\<rparr>))"

text \<open>\<open>std::atomic_flag::clear\<close> on the \<open>owned\<close> flag of the object at \<open>p\<close>.\<close>

definition clear_flag :: "addr \<Rightarrow> registry \<Rightarrow> registry option" where
  "clear_flag p s =
     (case heap s p of
        None \<Rightarrow> None
      | Some ts \<Rightarrow>
          Some (s\<lparr>heap := (heap s)(p \<mapsto> ts\<lparr>owned := False\<rparr>),
                  effects := effects s @ [ClearFlag p]\<rparr>))"

subsection \<open>ClearOwnedFlag\<close>

definition ClearOwnedFlag :: "addr \<Rightarrow> registry \<Rightarrow> unit outcome \<times> registry" where
  "ClearOwnedFlag data s =
     (let thread_state_p = data in
      case clear_flag thread_state_p s of
        None \<Rightarrow> (InvalidDeref, s)
      | Some s' \<Rightarrow> (Returned (), s'))"

subsection \<open>Init\<close>

text \<open>
  \<open>key_create_rc\<close> is the value \<open>pthread_key_create\<close> returns: 0 on success, an error
  number otherwise.
\<close>

definition Init :: "int \<Rightarrow> registry \<Rightarrow> unit outcome \<times> registry" where
  "Init key_create_rc s =
     (if \<not> (inited s = False) then (AssertFailed, s)
      else
        let s1 = s\<lparr>next_id := 0\<rparr>;
            s2 = s1\<lparr>thread_state_head_p := 0\<rparr>;
            s3 = s2\<lparr>effects := effects s2 @ [KeyCreate]\<rparr>
        in if key_create_rc \<noteq> 0
           then (Exited 1,
                 s3\<lparr>effects := effects s3 @ [Perror ''ThreadState::Init::pthread_key_create()'']\<rparr>)
           else (Returned (), s3\<lparr>inited := True\<rparr>))"

subsection \<open>EnterCritical\<close>

text \<open>The member function has an empty body; \<open>this_p\<close> is the object it is called on.\<close>

definition EnterCritical :: "addr \<Rightarrow> registry \<Rightarrow> unit outcome \<times> registry" where
  "EnterCritical this_p s = (Returned (), s)"

subsection \<open>CACHE_ALIGNED_ALLOC\<close>

definition CACHE_LINE_SIZE :: "64 word" where
  "CACHE_LINE_SIZE = 64"

text \<open>
  The macro, with \<open>malloc\<close> a parameter: the function from the requested size to the
  address \<open>malloc\<close> returns, 0 when it fails. The size \<open>_s\<close> is a \<open>size_t\<close>, so the sum
  \<open>(_s)+CACHE_LINE_SIZE*2\<close> wraps at \<open>2 ^ 64\<close>, and so does the sum on the address.
  \<open>~(CACHE_LINE_SIZE-1)\<close> is the \<open>int\<close> \<open>-64\<close>, converted to \<open>unsigned long\<close>
  by the \<open>&\<close>: all bits set but the low six.
\<close>

definition CACHE_ALIGNED_ALLOC :: "(64 word \<Rightarrow> addr) \<Rightarrow> 64 word \<Rightarrow> addr" where
  "CACHE_ALIGNED_ALLOC malloc s =
     (malloc (s + CACHE_LINE_SIZE * 2) + CACHE_LINE_SIZE - 1) AND NOT (CACHE_LINE_SIZE - 1)"

text \<open>
  \<open>sizeof(ThreadState)\<close> under the LP64 data model the macro assumes: an
  \<open>unsigned int\<close>, the one-byte flag, three bytes of padding and two pointers.
\<close>

definition sizeof_ThreadState :: "64 word" where
  "sizeof_ThreadState = 24"

subsection \<open>GetCurrentThreadState\<close>

definition pthread_getspecific :: "tid \<Rightarrow> registry \<Rightarrow> addr" where
  "pthread_getspecific t s = specific s t"

text \<open>\<open>pthread_setspecific\<close>; the code ignores its result and the model takes it to succeed.\<close>

definition pthread_setspecific :: "tid \<Rightarrow> addr \<Rightarrow> registry \<Rightarrow> registry" where
  "pthread_setspecific t p s =
     s\<lparr>specific := (specific s)(t := p), effects := effects s @ [SetSpecific t p]\<rparr>"

text \<open>
  One pass through the body of the \<open>while\<close> loop by thread \<open>t\<close> with
  \<open>thread_state_p = p\<close>: the test-and-set and, when it acquired the flag, the
  registration. The result is \<open>ownership_acquired\<close> and the new state; \<open>None\<close> when
  \<open>p\<close> is not an object of the store.
\<close>

definition loop_body :: "tid \<Rightarrow> addr \<Rightarrow> registry \<Rightarrow> (bool \<times> registry) option" where
  "loop_body t p s =
     (case test_and_set p s of
        None \<Rightarrow> None
      | Some (was_set, s1) \<Rightarrow>
          let ownership_acquired = \<not> was_set in
          if ownership_acquired = True
          then Some (True, pthread_setspecific t p s1)
          else Some (False, s1))"

text \<open>
  The \<open>while\<close> loop. Its body never assigns \<open>thread_state_p\<close>, so the recursive call
  is at the same \<open>p\<close>. The result is \<open>Some (Some out, s')\<close> when the function ends
  inside the loop with outcome \<open>out\<close>, \<open>Some (None, s')\<close> when the loop is left
  because its condition is false, and \<open>None\<close> when the loop runs forever.
\<close>

partial_function (option) while_loop ::
  "tid \<Rightarrow> addr \<Rightarrow> registry \<Rightarrow> (addr outcome option \<times> registry) option" where
  "while_loop t p s =
     (if p \<noteq> 0 then
        (case loop_body t p s of
           None \<Rightarrow> Some (Some InvalidDeref, s)
         | Some (ownership_acquired, s1) \<Rightarrow>
             if ownership_acquired then Some (Some (Returned p), s1)
             else while_loop t p s1)
      else Some (None, s))"

text \<open>
  The function, called by thread \<open>t\<close>. After the loop the code allocates and then
  reaches the closing brace: the allocated address is assigned to the local variable
  and nothing else is done with it.
\<close>

definition GetCurrentThreadState ::
  "(64 word \<Rightarrow> addr) \<Rightarrow> tid \<Rightarrow> registry \<Rightarrow> (addr outcome \<times> registry) option" where
  "GetCurrentThreadState malloc t s =
     (let thread_state_p = pthread_getspecific t s in
      if thread_state_p \<noteq> 0 then Some (Returned thread_state_p, s)
      else
        (case while_loop t (thread_state_head_p s) s of
           None \<Rightarrow> None
         | Some (Some out, s1) \<Rightarrow> Some (out, s1)
         | Some (None, s1) \<Rightarrow>
             let thread_state_p = CACHE_ALIGNED_ALLOC malloc sizeof_ThreadState;
                 s2 = s1\<lparr>effects := effects s1 @ [Malloc (sizeof_ThreadState + CACHE_LINE_SIZE * 2)]\<rparr>
             in Some (FellOffEnd, s2)))"

subsection \<open>Threads running side by side\<close>

text \<open>
  The two operations on the \<open>owned\<close> flags are atomic, so a run of several threads is
  a sequence of steps, each one thread's: \<open>Attempt t p\<close> is thread \<open>t\<close> passing once
  through the loop body at the slot \<open>p\<close>, \<open>Release p\<close> is the exit hook
  \<open>ClearOwnedFlag\<close> called on \<open>p\<close>. \<open>run\<close> is \<open>None\<close> when a step dereferences an
  address outside the store.
\<close>

datatype step = Attempt tid addr | Release addr

fun run :: "step list \<Rightarrow> registry \<Rightarrow> registry option" where
  "run [] s = Some s"
| "run (Attempt t p # es) s =
     (case loop_body t p s of None \<Rightarrow> None | Some (_, s') \<Rightarrow> run es s')"
| "run (Release p # es) s =
     (case ClearOwnedFlag p s of
        (Returned _, s') \<Rightarrow> run es s'
      | _ \<Rightarrow> None)"

subsection \<open>Predicates and example states used in the statements\<close>

text \<open>
  \<open>malloc_ok malloc sz\<close>: the allocator answers the request for \<open>sz\<close> bytes with a
  non-null address, and the \<open>sz\<close> bytes from that address lie in the address space.
\<close>

definition malloc_ok :: "(64 word \<Rightarrow> addr) \<Rightarrow> 64 word \<Rightarrow> bool" where
  "malloc_ok malloc sz \<longleftrightarrow> malloc sz \<noteq> 0 \<and> unat (malloc sz) + unat sz \<le> 2 ^ 64"

text \<open>\<open>within_block a n b len\<close>: the \<open>n\<close> bytes from \<open>a\<close> lie in the \<open>len\<close> bytes from \<open>b\<close>.\<close>

definition within_block :: "addr \<Rightarrow> nat \<Rightarrow> addr \<Rightarrow> nat \<Rightarrow> bool" where
  "within_block a n b len \<longleftrightarrow> unat b \<le> unat a \<and> unat a + n \<le> unat b + len"

text \<open>An allocator that answers every request with the address \<open>a\<close> (0: it fails).\<close>

definition malloc_const :: "addr \<Rightarrow> 64 word \<Rightarrow> addr" where
  "malloc_const a sz = a"

text \<open>The statics before \<open>Init\<close> (zero-initialised), no object, no thread registered.\<close>

definition initial_registry :: registry where
  "initial_registry =
     \<lparr>heap = Map.empty, next_id = 0, thread_state_head_p = 0, inited = False,
      specific = (\<lambda>t. 0), effects = []\<rparr>"

text \<open>The state after a successful \<open>Init\<close>, with the log emptied.\<close>

definition inited_registry :: registry where
  "inited_registry = initial_registry\<lparr>inited := True\<rparr>"

text \<open>
  A list of two slots: the head at \<open>0x2000\<close>, owned by thread 1, and its successor at
  \<open>0x2040\<close>, free.
\<close>

definition two_slots :: registry where
  "two_slots =
     \<lparr>heap = [0x2000 \<mapsto> \<lparr>id_field = 0, owned = True, next_p = 0x2040, gc_p = 0\<rparr>,
              0x2040 \<mapsto> \<lparr>id_field = 1, owned = False, next_p = 0, gc_p = 0\<rparr>],
      next_id = 2, thread_state_head_p = 0x2000, inited = True,
      specific = (\<lambda>t. 0)(1 := 0x2000), effects = []\<rparr>"

text \<open>The same list with both slots free and no thread registered.\<close>

definition free_slots :: registry where
  "free_slots =
     \<lparr>heap = [0x2000 \<mapsto> \<lparr>id_field = 0, owned = False, next_p = 0x2040, gc_p = 0\<rparr>,
              0x2040 \<mapsto> \<lparr>id_field = 1, owned = False, next_p = 0, gc_p = 0\<rparr>],
      next_id = 2, thread_state_head_p = 0x2000, inited = True,
      specific = (\<lambda>t. 0), effects = []\<rparr>"

text \<open>\<open>free_slots\<close> after thread 1 has claimed the head.\<close>

definition head_claimed :: registry where
  "head_claimed =
     free_slots\<lparr>heap := (heap free_slots)
                   (0x2000 \<mapsto> \<lparr>id_field = 0, owned = True, next_p = 0x2040, gc_p = 0\<rparr>),
                 specific := (specific free_slots)(1 := 0x2000),
                 effects := [TestAndSet 0x2000, SetSpecific 1 0x2000]\<rparr>"

section \<open>Auxiliary facts\<close>

subsection \<open>The loop\<close>

text \<open>
  If the loop ends at all, it was entered with a null pointer, with an address outside
  the store, or at a slot whose flag was clear.
\<close>

lemma while_loop_Some_not_owned:
  assumes "while_loop t p s = Some r"
  shows "p = 0 \<or> heap s p = None \<or> (\<exists>ts. heap s p = Some ts \<and> \<not> owned ts)"
proof (rule while_loop.raw_induct
    [where P = "\<lambda>t p s r. p = 0 \<or> heap s p = None \<or> (\<exists>ts. heap s p = Some ts \<and> \<not> owned ts)",
     OF _ assms])
  fix wl :: "tid \<Rightarrow> addr \<Rightarrow> registry \<Rightarrow> (addr outcome option \<times> registry) option"
  fix t p s r
  assume IH: "\<And>t p s r. wl t p s = Some r \<Longrightarrow>
                 p = 0 \<or> heap s p = None \<or> (\<exists>ts. heap s p = Some ts \<and> \<not> owned ts)"
  assume eq: "(if p \<noteq> 0
      then case loop_body t p s of None \<Rightarrow> Some (Some InvalidDeref, s)
           | Some (ownership_acquired, s1) \<Rightarrow>
               if ownership_acquired then Some (Some (Returned p), s1)
               else wl t p s1
      else Some (None, s)) = Some r"
  show "p = 0 \<or> heap s p = None \<or> (\<exists>ts. heap s p = Some ts \<and> \<not> owned ts)"
  proof (cases "p = 0 \<or> heap s p = None")
    case True
    then show ?thesis by blast
  next
    case False
    then obtain ts where ts: "p \<noteq> 0" "heap s p = Some ts" by auto
    show ?thesis
    proof (cases "owned ts")
      case False
      with ts show ?thesis by simp
    next
      case True
      let ?s1 = "s\<lparr>heap := (heap s)(p \<mapsto> ts\<lparr>owned := True\<rparr>),
                    effects := effects s @ [TestAndSet p]\<rparr>"
      from ts True have "loop_body t p s = Some (False, ?s1)"
        by (simp add: loop_body_def test_and_set_def)
      with eq ts have "wl t p ?s1 = Some r" by simp
      from IH[OF this] ts show ?thesis by simp
    qed
  qed
qed

text \<open>So at a slot of the store whose flag is set, the loop does not end.\<close>

lemma while_loop_spins:
  assumes "p \<noteq> 0" and "heap s p = Some ts" and "owned ts"
  shows "while_loop t p s = None"
  using while_loop_Some_not_owned[of t p s] assms by (cases "while_loop t p s") auto

subsection \<open>Rounding an address to the cache line\<close>

lemma and_not_63: "(x::64 word) AND NOT 63 = push_bit 6 (drop_bit 6 x)"
proof -
  have m: "(63::64 word) = mask 6" by (simp add: mask_eq_exp_minus_1)
  show ?thesis unfolding m
    by (rule bit_word_eqI) (auto simp: bit_simps)
qed

lemma unat_and_not_63: "unat ((x::64 word) AND NOT 63) = (unat x div 64) * 64"
proof -
  have "unat (push_bit 6 (drop_bit 6 x)) = take_bit 64 (push_bit 6 (drop_bit 6 (unat x)))"
    by (simp add: unsigned_push_bit_eq unat_drop_bit_eq)
  also have "\<dots> = (unat x div 64) * 64 mod 2 ^ 64"
    by (simp add: take_bit_eq_mod push_bit_eq_mult drop_bit_eq_div)
  also have "\<dots> = (unat x div 64) * 64"
  proof -
    have "unat x < 2 ^ 64" using unsigned_less[of x] by simp
    moreover have "(unat x div 64) * 64 \<le> unat x" by simp
    ultimately show ?thesis by simp
  qed
  finally show ?thesis unfolding and_not_63 .
qed

lemma unat_add_63: "unat (m::64 word) + 63 < 2 ^ 64 \<Longrightarrow> unat (m + 63) = unat m + 63"
  by (simp add: unat_word_ariths)

lemma CACHE_ALIGNED_ALLOC_unfold:
  "CACHE_ALIGNED_ALLOC malloc s = (malloc (s + 128) + 63) AND NOT 63"
  by (simp add: CACHE_ALIGNED_ALLOC_def CACHE_LINE_SIZE_def add.commute)

subsection \<open>A set flag stays set until it is cleared\<close>

lemma loop_body_sets_flag:
  assumes "loop_body t p s = Some (b, s1)"
  shows "\<exists>ts. heap s1 p = Some ts \<and> owned ts"
  using assms
  by (auto simp: loop_body_def test_and_set_def pthread_setspecific_def
           split: option.splits if_splits)

lemma run_keeps_owned:
  assumes "run es s = Some s'" and "heap s p = Some ts" and "owned ts"
      and "Release p \<notin> set es"
  shows "\<exists>ts'. heap s' p = Some ts' \<and> owned ts'"
  using assms
proof (induction es arbitrary: s ts)
  case Nil
  then show ?case by simp
next
  case (Cons e es)
  show ?case
  proof (cases e)
    case (Attempt t q)
    with Cons.prems(1) obtain b s1 where
      lb: "loop_body t q s = Some (b, s1)" and r: "run es s1 = Some s'"
      by (auto split: option.splits)
    from lb Cons.prems(2,3) have "\<exists>ts1. heap s1 p = Some ts1 \<and> owned ts1"
      by (auto simp: loop_body_def test_and_set_def pthread_setspecific_def
               split: option.splits if_splits)
    then obtain ts1 where "heap s1 p = Some ts1" "owned ts1" by blast
    with Cons.IH[OF r] Cons.prems(4) show ?thesis by simp
  next
    case (Release q)
    with Cons.prems(4) have qp: "q \<noteq> p" by auto
    from Release Cons.prems(1) obtain s1 where
      c: "ClearOwnedFlag q s = (Returned (), s1)" and r: "run es s1 = Some s'"
      by (auto split: prod.splits outcome.splits)
    from c qp Cons.prems(2) have "heap s1 p = Some ts"
      by (auto simp: ClearOwnedFlag_def clear_flag_def split: option.splits)
    with Cons.IH[OF r _ Cons.prems(3)] Cons.prems(4) show ?thesis by simp
  qed
qed

section \<open>The claims\<close>

text \<open>
  C1. The claim: a thread with no thread-local binding walks the slot list, visits
  every slot at most once, ends after the finite list and binds the first slot it
  claims. The loop of \<open>GetCurrentThreadState\<close> never moves to \<open>next_p\<close>: in the
  list \<open>two_slots\<close>, whose head is owned and whose second slot is free, the call by
  thread 2 (no binding) tests the head again and again and never ends, so the free
  slot is never reached.
\<close>

theorem GetCurrentThreadState_spins_on_owned_head:
  "pthread_getspecific 2 two_slots = 0
   \<and> GetCurrentThreadState (malloc_const 0x3010) 2 two_slots = None"
  by (simp add: GetCurrentThreadState_def pthread_getspecific_def two_slots_def
      while_loop_spins[where ts = "\<lparr>id_field = 0, owned = True, next_p = 0x2040, gc_p = 0\<rparr>"])

text \<open>
  C2. The claim: when the walk claims no slot, a new aligned slot is allocated,
  appended to the list, claimed, bound and returned. On the empty list after
  \<open>Init\<close> the call by thread 2 allocates (the aligned address is \<open>0x3040\<close>) and then
  reaches the end of the function: no value is returned, the list head is still null,
  the store has no slot and the thread has no binding.
\<close>

theorem GetCurrentThreadState_empty_list_falls_off:
  "GetCurrentThreadState (malloc_const 0x3010) 2 inited_registry
     = Some (FellOffEnd, inited_registry\<lparr>effects := [Malloc 152]\<rparr>)
   \<and> CACHE_ALIGNED_ALLOC (malloc_const 0x3010) sizeof_ThreadState = 0x3040
   \<and> thread_state_head_p (inited_registry\<lparr>effects := [Malloc 152]\<rparr>) = 0
   \<and> heap (inited_registry\<lparr>effects := [Malloc 152]\<rparr>) = Map.empty
   \<and> pthread_getspecific 2 (inited_registry\<lparr>effects := [Malloc 152]\<rparr>) = 0"
  by (simp add: GetCurrentThreadState_def pthread_getspecific_def inited_registry_def
      initial_registry_def while_loop.simps sizeof_ThreadState_def CACHE_LINE_SIZE_def
      CACHE_ALIGNED_ALLOC_def malloc_const_def)

text \<open>
  C3. When the calling thread has a thread-local binding (\<open>pthread_getspecific\<close> is
  not null), \<open>GetCurrentThreadState\<close> returns that address and the state is the one
  it was called in: no slot, not the list head and no thread-local value has changed,
  and the log of effects is as before, so no \<open>test_and_set\<close> was made.
\<close>

theorem GetCurrentThreadState_fast_path:
  assumes "pthread_getspecific t s \<noteq> 0"
  shows "\<exists>s'. GetCurrentThreadState malloc t s = Some (Returned (pthread_getspecific t s), s')
           \<and> s' = s
           \<and> heap s' = heap s
           \<and> thread_state_head_p s' = thread_state_head_p s
           \<and> specific s' = specific s
           \<and> effects s' = effects s"
  using assms by (simp add: GetCurrentThreadState_def)

theorem GetCurrentThreadState_fast_path_witness:
  "pthread_getspecific 1 two_slots \<noteq> 0
   \<and> GetCurrentThreadState (malloc_const 0) 1 two_slots = Some (Returned 0x2000, two_slots)"
proof -
  have h: "pthread_getspecific 1 two_slots \<noteq> 0"
    by (simp add: pthread_getspecific_def two_slots_def)
  have v: "pthread_getspecific 1 two_slots = 0x2000"
    by (simp add: pthread_getspecific_def two_slots_def)
  from GetCurrentThreadState_fast_path[OF h, of "malloc_const 0"] h v
  show ?thesis by simp
qed

text \<open>
  C4. ReleaseSlot, the thread-exit hook \<open>ClearOwnedFlag\<close>, called on a slot of the
  store, returns normally and changes nothing but that slot's \<open>owned\<close> flag, which
  becomes false: the slot's \<open>id\<close>, \<open>next_p\<close> and \<open>gc_p\<close> are as before, every
  other slot is as before, no slot leaves the store, and the list head and the other
  static members are as before, so the slot stays linked.
\<close>

theorem ClearOwnedFlag_clears_only_owned:
  assumes "heap s p = Some ts"
  shows "\<exists>s'. ClearOwnedFlag p s = (Returned (), s')
           \<and> heap s' p = Some (ts\<lparr>owned := False\<rparr>)
           \<and> (\<forall>ts'. heap s' p = Some ts' \<longrightarrow>
                 \<not> owned ts' \<and> id_field ts' = id_field ts
                 \<and> next_p ts' = next_p ts \<and> gc_p ts' = gc_p ts)
           \<and> (\<forall>q. q \<noteq> p \<longrightarrow> heap s' q = heap s q)
           \<and> dom (heap s') = dom (heap s)
           \<and> thread_state_head_p s' = thread_state_head_p s
           \<and> next_id s' = next_id s
           \<and> inited s' = inited s
           \<and> specific s' = specific s"
  using assms by (auto simp: ClearOwnedFlag_def clear_flag_def)

theorem ClearOwnedFlag_clears_only_owned_witness:
  "heap two_slots 0x2000 = Some \<lparr>id_field = 0, owned = True, next_p = 0x2040, gc_p = 0\<rparr>
   \<and> (\<exists>s'. ClearOwnedFlag 0x2000 two_slots = (Returned (), s')
          \<and> heap s' 0x2000 = Some \<lparr>id_field = 0, owned = False, next_p = 0x2040, gc_p = 0\<rparr>
          \<and> heap s' 0x2040 = heap two_slots 0x2040
          \<and> thread_state_head_p s' = 0x2000)"
proof -
  have h: "heap two_slots 0x2000 = Some \<lparr>id_field = 0, owned = True, next_p = 0x2040, gc_p = 0\<rparr>"
    by (simp add: two_slots_def)
  have hd: "thread_state_head_p two_slots = 0x2000"
    by (simp add: two_slots_def)
  from ClearOwnedFlag_clears_only_owned[OF h] obtain s' where
    r: "ClearOwnedFlag 0x2000 two_slots = (Returned (), s')"
    and a: "heap s' 0x2000
            = Some (\<lparr>id_field = 0, owned = True, next_p = 0x2040, gc_p = 0\<rparr>\<lparr>owned := False\<rparr>)"
    and o: "\<forall>q. q \<noteq> 0x2000 \<longrightarrow> heap s' q = heap two_slots q"
    and d: "thread_state_head_p s' = thread_state_head_p two_slots"
    by blast
  from o have "heap s' 0x2040 = heap two_slots 0x2040" by simp
  with h r a d hd show ?thesis by simp
qed




text \<open>
  C6. The claim: \<open>EnterCritical\<close> records on the caller's slot that the thread is
  traversing the structure and stamps its epoch. The body of \<open>EnterCritical\<close> is
  empty: called on any object in any state it returns with the state as it was, so no
  slot carries a mark or an epoch afterwards (and \<open>ThreadState\<close> has no field for
  either).
\<close>

theorem EnterCritical_changes_nothing:
  "EnterCritical this_p s = (Returned (), s)"
  by (simp add: EnterCritical_def)

text \<open>
  C7. The claim: for every size \<open>s\<close>, when \<open>malloc\<close> succeeds, the macro's result is
  a multiple of 64 and the \<open>s\<close> bytes from it lie in the allocated block. The size
  passed to \<open>malloc\<close> is computed in \<open>size_t\<close> and wraps: for
  \<open>s = 0xFFFFFFFFFFFFFFC0\<close> the request is for 64 bytes, \<open>malloc\<close> succeeds with the
  block at \<open>0x1000\<close>, the macro returns \<open>0x1000\<close>, and the \<open>s\<close> bytes from there do
  not fit in the 64 bytes of the block.
\<close>

theorem CACHE_ALIGNED_ALLOC_size_wraps_counterexample:
  "malloc_ok (malloc_const 0x1000) (0xFFFFFFFFFFFFFFC0 + CACHE_LINE_SIZE * 2)
   \<and> unat (0xFFFFFFFFFFFFFFC0 + CACHE_LINE_SIZE * 2) = 64
   \<and> CACHE_ALIGNED_ALLOC (malloc_const 0x1000) 0xFFFFFFFFFFFFFFC0 = 0x1000
   \<and> \<not> within_block
         (CACHE_ALIGNED_ALLOC (malloc_const 0x1000) 0xFFFFFFFFFFFFFFC0)
         (unat (0xFFFFFFFFFFFFFFC0 :: 64 word))
         (malloc_const 0x1000 (0xFFFFFFFFFFFFFFC0 + CACHE_LINE_SIZE * 2))
         (unat (0xFFFFFFFFFFFFFFC0 + CACHE_LINE_SIZE * 2))"
  by (simp add: malloc_ok_def within_block_def malloc_const_def CACHE_ALIGNED_ALLOC_def
      CACHE_LINE_SIZE_def)

text \<open>
  C7, amended. For every size \<open>s\<close> for which \<open>s + 2 * CACHE_LINE_SIZE\<close> does not
  wrap around, when \<open>malloc\<close> succeeds, \<open>CACHE_ALIGNED_ALLOC(s)\<close> is a multiple of
  \<open>CACHE_LINE_SIZE\<close> and the \<open>s\<close> bytes from it lie within the allocated block of
  \<open>s + 2 * CACHE_LINE_SIZE\<close> bytes.
\<close>

theorem CACHE_ALIGNED_ALLOC_aligned_in_block:
  assumes nowrap: "unat s + 2 * unat CACHE_LINE_SIZE < 2 ^ 64"
      and ok: "malloc_ok malloc (s + CACHE_LINE_SIZE * 2)"
  shows "unat (CACHE_ALIGNED_ALLOC malloc s) mod unat CACHE_LINE_SIZE = 0
       \<and> within_block (CACHE_ALIGNED_ALLOC malloc s) (unat s)
            (malloc (s + CACHE_LINE_SIZE * 2)) (unat s + 2 * unat CACHE_LINE_SIZE)"
proof -
  let ?m = "malloc (s + 128)"
  have cls: "unat CACHE_LINE_SIZE = 64" "CACHE_LINE_SIZE * 2 = 128"
    by (simp_all add: CACHE_LINE_SIZE_def)
  from nowrap have nw: "unat s + 128 < 2 ^ 64" by (simp add: cls)
  then have sz: "unat (s + 128) = unat s + 128"
    by (simp add: unat_word_ariths)
  from ok have "unat ?m + unat (s + 128) \<le> 2 ^ 64"
    by (simp add: malloc_ok_def cls)
  with sz have "unat ?m + 63 < 2 ^ 64" by simp
  then have m63: "unat (?m + 63) = unat ?m + 63" by (rule unat_add_63)
  have r: "unat (CACHE_ALIGNED_ALLOC malloc s) = ((unat ?m + 63) div 64) * 64"
    unfolding CACHE_ALIGNED_ALLOC_unfold unat_and_not_63 m63 ..
  have "((unat ?m + 63) div 64) * 64 mod 64 = 0" by simp
  moreover have "unat ?m \<le> ((unat ?m + 63) div 64) * 64" by presburger
  moreover have "((unat ?m + 63) div 64) * 64 + unat s \<le> unat ?m + (unat s + 2 * 64)"
    by presburger
  ultimately show ?thesis
    unfolding within_block_def r cls by simp
qed

theorem CACHE_ALIGNED_ALLOC_aligned_in_block_witness:
  "unat sizeof_ThreadState + 2 * unat CACHE_LINE_SIZE < 2 ^ 64
   \<and> malloc_ok (malloc_const 0x3010) (sizeof_ThreadState + CACHE_LINE_SIZE * 2)
   \<and> CACHE_ALIGNED_ALLOC (malloc_const 0x3010) sizeof_ThreadState = 0x3040
   \<and> unat (CACHE_ALIGNED_ALLOC (malloc_const 0x3010) sizeof_ThreadState)
       mod unat CACHE_LINE_SIZE = 0
   \<and> within_block (CACHE_ALIGNED_ALLOC (malloc_const 0x3010) sizeof_ThreadState)
       (unat sizeof_ThreadState)
       (malloc_const 0x3010 (sizeof_ThreadState + CACHE_LINE_SIZE * 2))
       (unat sizeof_ThreadState + 2 * unat CACHE_LINE_SIZE)"
proof -
  have a: "unat sizeof_ThreadState + 2 * unat CACHE_LINE_SIZE < 2 ^ 64"
    by (simp add: sizeof_ThreadState_def CACHE_LINE_SIZE_def)
  have b: "malloc_ok (malloc_const 0x3010) (sizeof_ThreadState + CACHE_LINE_SIZE * 2)"
    by (simp add: malloc_ok_def malloc_const_def sizeof_ThreadState_def CACHE_LINE_SIZE_def)
  have v: "CACHE_ALIGNED_ALLOC (malloc_const 0x3010) sizeof_ThreadState = 0x3040"
    by (simp add: CACHE_ALIGNED_ALLOC_def malloc_const_def sizeof_ThreadState_def
        CACHE_LINE_SIZE_def)
  from CACHE_ALIGNED_ALLOC_aligned_in_block[OF a b] a b v show ?thesis by simp
qed

text \<open>
  C9. Two threads never hold the same slot. The steps of the threads on the flags
  are atomic and so form one sequence. Once a thread \<open>t1\<close> has claimed the slot \<open>p\<close>
  by a successful test-and-set, then after any steps of any threads among which
  \<open>p\<close> is not released, the slot's flag is still set and the claim of any thread
  \<open>t2\<close> on \<open>p\<close> fails.
\<close>

theorem claimed_slot_not_claimed_again:
  assumes "loop_body t1 p s = Some (True, s1)"
      and "run es s1 = Some s2"
      and "Release p \<notin> set es"
  shows "(\<exists>ts. heap s2 p = Some ts \<and> owned ts)
       \<and> (\<exists>s3. loop_body t2 p s2 = Some (False, s3))"
proof -
  from loop_body_sets_flag[OF assms(1)]
  obtain ts where "heap s1 p = Some ts" "owned ts" by blast
  from run_keeps_owned[OF assms(2) this assms(3)]
  show ?thesis by (auto simp: loop_body_def test_and_set_def)
qed

theorem claimed_slot_not_claimed_again_witness:
  "loop_body 1 0x2000 free_slots = Some (True, head_claimed)
   \<and> (\<exists>s2. run [Attempt 2 0x2000, Attempt 2 0x2040, Release 0x2040] head_claimed = Some s2
          \<and> (\<exists>s3. loop_body 2 0x2000 s2 = Some (False, s3)))
   \<and> Release 0x2000 \<notin> set [Attempt 2 0x2000, Attempt 2 0x2040, Release 0x2040]"
proof -
  have a: "loop_body 1 0x2000 free_slots = Some (True, head_claimed)"
    by (simp add: loop_body_def test_and_set_def pthread_setspecific_def free_slots_def
        head_claimed_def)
  have "\<exists>s2. run [Attempt 2 0x2000, Attempt 2 0x2040, Release 0x2040] head_claimed = Some s2"
    by (simp add: loop_body_def test_and_set_def pthread_setspecific_def free_slots_def
        head_claimed_def ClearOwnedFlag_def clear_flag_def)
  then obtain s2 where
    r: "run [Attempt 2 0x2000, Attempt 2 0x2040, Release 0x2040] head_claimed = Some s2"
    by blast
  have c: "Release 0x2000 \<notin> set [Attempt 2 0x2000, Attempt 2 0x2040, Release 0x2040]"
    by simp
  from claimed_slot_not_claimed_again[OF a r c, of 2] a r c show ?thesis by blast
qed

text \<open>
  C10. \<open>Init\<close> must not have run before: called with \<open>inited\<close> true it fails its
  assertion and changes nothing. Called with \<open>inited\<close> false and
  \<open>pthread_key_create\<close> succeeding, it returns with \<open>next_id = 0\<close>, the list head
  null and \<open>inited\<close> true, and a further call in the resulting state fails the
  assertion.
\<close>

theorem Init_runs_once:
  "(inited s \<longrightarrow> Init rc s = (AssertFailed, s))
   \<and> (\<not> inited s \<longrightarrow>
        (\<exists>s'. Init 0 s = (Returned (), s')
            \<and> next_id s' = 0 \<and> thread_state_head_p s' = 0 \<and> inited s' = True
            \<and> heap s' = heap s \<and> specific s' = specific s
            \<and> Init rc s' = (AssertFailed, s')))"
  by (simp add: Init_def)

theorem Init_runs_once_witness:
  "\<not> inited initial_registry
   \<and> (\<exists>s'. Init 0 initial_registry = (Returned (), s')
          \<and> next_id s' = 0 \<and> thread_state_head_p s' = 0 \<and> inited s' = True
          \<and> Init 0 s' = (AssertFailed, s'))
   \<and> inited inited_registry
   \<and> Init 0 inited_registry = (AssertFailed, inited_registry)"
proof -
  have n: "\<not> inited initial_registry" "inited inited_registry"
    by (simp_all add: initial_registry_def inited_registry_def)
  from Init_runs_once[of initial_registry 0] Init_runs_once[of inited_registry 0] n
  show ?thesis by blast
qed

end
